theory Spec2Isabelle
  imports Main "HOL-Library.Word"
begin

section \<open>The query provider of KubeVela: data model\<close>

text \<open>
  The Go package \<open>query\<close> registers five workflow handlers. This theory embeds the
  handlers and the two endpoint generators they call. Go strings are byte strings
  (\<open>string\<close>), \<open>int32\<close> and \<open>int64\<close> are words, Go's \<open>int\<close> is taken at its 64-bit
  size (the platforms KubeVela is built for), and a nil or empty slice is the empty list.
  Fields of the Kubernetes objects that no handler reads are left out of the records.
\<close>

type_synonym int32 = "32 word"
type_synonym int64 = "64 word"

text \<open>A \<open>metav1.Time\<close> is an instant, counted in nanoseconds.\<close>

type_synonym Time = int

text \<open>\<open>metav1.TypeMeta\<close> and \<open>metav1.ObjectMeta\<close>, embedded in every typed object.\<close>

record TypeMeta =
  Kind :: string
  APIVersion :: string

record ObjectMeta =
  Name :: string
  Namespace :: string
  UID :: string
  ResourceVersion :: string
  CreationTimestamp :: Time
  Annotations :: "string \<rightharpoonup> string"

text \<open>A typed object of the API: the two embedded metadata structs, \<open>Spec\<close> and
  \<open>Status\<close>. An \<open>unstructured.Unstructured\<close> is read through the same accessors.\<close>

record ('spec, 'status) Object =
  TypeMeta :: TypeMeta
  ObjectMeta :: ObjectMeta
  Spec :: 'spec
  Status :: 'status

text \<open>\<open>corev1.ObjectReference\<close>: the fields the generators fill in.\<close>

record ObjectReference =
  Kind :: string
  Namespace :: string
  Name :: string
  UID :: string
  APIVersion :: string
  ResourceVersion :: string

text \<open>\<open>Endpoint\<close> and \<open>ServiceEndpoint\<close> of the package; \<open>AppProtocol\<close> is a \<open>*string\<close>.\<close>

record Endpoint =
  Protocol :: string
  AppProtocol :: "string option"
  Host :: string
  Port :: int32
  Path :: string

record ServiceEndpoint =
  Endpoint :: Endpoint
  Ref :: ObjectReference

text \<open>\<open>corev1.Service\<close>.\<close>

record ServicePort =
  Protocol :: string
  Port :: int32
  NodePort :: int32

record ServiceSpec =
  Ports :: "ServicePort list"
  Type :: string

record LoadBalancerIngress =
  IP :: string
  Hostname :: string

record LoadBalancerStatus =
  Ingress :: "LoadBalancerIngress list"

record ServiceStatus =
  LoadBalancer :: LoadBalancerStatus

type_synonym Service = "(ServiceSpec, ServiceStatus) Object"

text \<open>The values of \<open>corev1.ServiceType\<close> and \<open>corev1.ProtocolTCP\<close> (string constants of
  the Kubernetes API).\<close>

definition ServiceTypeClusterIP :: string where
  "ServiceTypeClusterIP = ''ClusterIP''"

definition ServiceTypeNodePort :: string where
  "ServiceTypeNodePort = ''NodePort''"

definition ServiceTypeLoadBalancer :: string where
  "ServiceTypeLoadBalancer = ''LoadBalancer''"

definition ServiceTypeExternalName :: string where
  "ServiceTypeExternalName = ''ExternalName''"

definition ProtocolTCP :: string where
  "ProtocolTCP = ''TCP''"

text \<open>\<open>networkv1beta1.Ingress\<close>; \<open>HTTP\<close> is a pointer, nil when the rule has no HTTP
  section.\<close>

record HTTPIngressPath =
  Path :: string

record HTTPIngressRuleValue =
  Paths :: "HTTPIngressPath list"

record IngressRule =
  Host :: string
  HTTP :: "HTTPIngressRuleValue option"

record IngressTLS =
  Hosts :: "string list"

record IngressSpec =
  TLS :: "IngressTLS list"
  Rules :: "IngressRule list"

record IngressStatus =
  LoadBalancer :: LoadBalancerStatus

type_synonym Ingress = "(IngressSpec, IngressStatus) Object"

text \<open>The two annotation keys of \<open>apis/types\<close>.\<close>

definition AnnoIngressControllerHTTPSPort :: string where
  "AnnoIngressControllerHTTPSPort = ''ingress.controller/https-port''"

definition AnnoIngressControllerHTTPPort :: string where
  "AnnoIngressControllerHTTPPort = ''ingress.controller/http-port''"

text \<open>Reading a Go \<open>map[string]string\<close> at a key: the empty string when the key is
  absent.\<close>

definition mapIndex :: "(string \<rightharpoonup> string) \<Rightarrow> string \<Rightarrow> string" where
  "mapIndex m k = (case m k of None \<Rightarrow> '''' | Some v \<Rightarrow> v)"

section \<open>Library functions the generators call\<close>

text \<open>
  Modelled from the spec: \<open>utils.StringsContain\<close> is a helper of this repository that
  is not among the source files; the specification reads it as "the host list contains
  the rule's host". It is the linear search for an equal element.
\<close>

primrec StringsContain :: "string list \<Rightarrow> string \<Rightarrow> bool" where
  "StringsContain [] source = False"
| "StringsContain (item # items) source = (if item = source then True else StringsContain items source)"

text \<open>
  \<open>strconv.Atoi\<close> of the Go standard library at \<open>strconv.IntSize = 64\<close>: an optional
  sign, then one or more decimal digits and nothing else. The digits are read from the
  left as \<open>ParseUint\<close> reads them, stopping with a syntax error at a byte that is no digit
  and with a range error once the value leaves \<open>uint64\<close>. \<open>Atoi\<close> returns the value and a
  nil error, or \<open>0\<close> with a syntax error, or the nearest bound of \<open>int\<close> with a range error.
\<close>

datatype NumError = ErrSyntax | ErrRange

definition isDigit :: "char \<Rightarrow> bool" where
  "isDigit ch = (48 \<le> (of_char ch :: nat) \<and> (of_char ch :: nat) \<le> 57)"

definition maxUint64 :: int where
  "maxUint64 = 18446744073709551615"

fun ParseUintLoop :: "string \<Rightarrow> int \<Rightarrow> int \<times> NumError option" where
  "ParseUintLoop [] n = (n, None)"
| "ParseUintLoop (ch # s) n =
    (if \<not> isDigit ch then (0, Some ErrSyntax)
     else if maxUint64 div 10 + 1 \<le> n then (maxUint64, Some ErrRange)
     else if maxUint64 < n * 10 + (of_char ch - 48) then (maxUint64, Some ErrRange)
     else ParseUintLoop s (n * 10 + (of_char ch - 48)))"

definition Atoi :: "string \<Rightarrow> int \<times> NumError option" where
  "Atoi s0 =
    (let neg = (s0 \<noteq> [] \<and> hd s0 = CHR ''-'');
         s = (if s0 \<noteq> [] \<and> (hd s0 = CHR ''-'' \<or> hd s0 = CHR ''+'') then tl s0 else s0)
     in if s = [] then (0, Some ErrSyntax)
        else
          (case ParseUintLoop s 0 of
             (un, Some ErrSyntax) \<Rightarrow> (0, Some ErrSyntax)
           | (un, e) \<Rightarrow>
               if \<not> neg \<and> 2 ^ 63 \<le> un then (2 ^ 63 - 1, Some ErrRange)
               else if neg \<and> 2 ^ 63 < un then (- (2 ^ 63), Some ErrRange)
               else (if neg then - un else un, None)))"

text \<open>
  \<open>strings.ToLower\<close>: on a string of ASCII bytes the letters \<open>A\<close> to \<open>Z\<close> are mapped to
  lower case byte by byte; any other string goes through the Unicode case tables, which
  stay a parameter \<open>unicodeLower\<close>.
\<close>

definition isASCII :: "string \<Rightarrow> bool" where
  "isASCII s = (\<not> list_ex (\<lambda>c. 128 \<le> (of_char c :: nat)) s)"

definition lowerByte :: "char \<Rightarrow> char" where
  "lowerByte c =
    (if 65 \<le> (of_char c :: nat) \<and> (of_char c :: nat) \<le> 90 then char_of ((of_char c :: nat) + 32) else c)"

definition ToLower :: "(string \<Rightarrow> string) \<Rightarrow> string \<Rightarrow> string" where
  "ToLower unicodeLower s = (if isASCII s then map lowerByte s else unicodeLower s)"

text \<open>The verb \<open>%d\<close> of \<open>fmt.Sprintf\<close> on an integer: decimal digits, with a minus sign
  when negative.\<close>

fun decimal :: "nat \<Rightarrow> string" where
  "decimal n =
    (if n < 10 then [''0123456789'' ! n] else decimal (n div 10) @ [''0123456789'' ! (n mod 10)])"

definition formatInt :: "int \<Rightarrow> string" where
  "formatInt i = (if i < 0 then CHR ''-'' # decimal (nat (- i)) else decimal (nat i))"

section \<open>ServiceEndpoint.String\<close>

definition String :: "(string \<Rightarrow> string) \<Rightarrow> ServiceEndpoint \<Rightarrow> string" where
  "String unicodeLower s =
    (let protocol0 = ToLower unicodeLower (Endpoint.Protocol (Endpoint s));
         protocol = (case AppProtocol (Endpoint s) of Some p \<Rightarrow> p | None \<Rightarrow> protocol0);
         path = (if Endpoint.Path (Endpoint s) = ''/'' then '''' else Endpoint.Path (Endpoint s))
     in if (protocol = ''https'' \<and> Endpoint.Port (Endpoint s) = 443)
           \<or> (protocol = ''http'' \<and> Endpoint.Port (Endpoint s) = 80)
        then protocol @ ''://'' @ Endpoint.Host (Endpoint s) @ path
        else protocol @ ''://'' @ Endpoint.Host (Endpoint s) @ '':''
               @ formatInt (sint (Endpoint.Port (Endpoint s))) @ path)"

section \<open>generatorFromService\<close>

text \<open>The object reference both generators attach to every endpoint they build.\<close>

definition objectRef :: "('spec, 'status) Object \<Rightarrow> ObjectReference" where
  "objectRef obj =
    \<lparr>ObjectReference.Kind = TypeMeta.Kind (TypeMeta obj),
     Namespace = ObjectMeta.Namespace (ObjectMeta obj),
     Name = ObjectMeta.Name (ObjectMeta obj),
     UID = ObjectMeta.UID (ObjectMeta obj),
     APIVersion = TypeMeta.APIVersion (TypeMeta obj),
     ResourceVersion = ObjectMeta.ResourceVersion (ObjectMeta obj)\<rparr>"

text \<open>The inner loop of the LoadBalancer case, over \<open>service.Status.LoadBalancer.Ingress\<close>:
  two independent tests, each appending an endpoint.\<close>

fun lbIngressLoop ::
  "Service \<Rightarrow> ServicePort \<Rightarrow> LoadBalancerIngress list \<Rightarrow> ServiceEndpoint list \<Rightarrow> ServiceEndpoint list"
where
  "lbIngressLoop service port [] serviceEndpoints = serviceEndpoints"
| "lbIngressLoop service port (ingress # rest) serviceEndpoints =
    (let eps1 =
           (if Hostname ingress \<noteq> ''''
            then serviceEndpoints @
                   [\<lparr>Endpoint = \<lparr>Endpoint.Protocol = ServicePort.Protocol port, AppProtocol = None,
                                  Host = Hostname ingress, Port = ServicePort.Port port, Path = ''''\<rparr>,
                     Ref = objectRef service\<rparr>]
            else serviceEndpoints);
         eps2 =
           (if IP ingress \<noteq> ''''
            then eps1 @
                   [\<lparr>Endpoint = \<lparr>Endpoint.Protocol = ServicePort.Protocol port, AppProtocol = None,
                                  Host = IP ingress, Port = ServicePort.Port port, Path = ''''\<rparr>,
                     Ref = objectRef service\<rparr>]
            else eps1)
     in lbIngressLoop service port rest eps2)"

text \<open>The outer loop of the LoadBalancer case, over \<open>service.Spec.Ports\<close>.\<close>

fun lbPortLoop :: "Service \<Rightarrow> ServicePort list \<Rightarrow> ServiceEndpoint list \<Rightarrow> ServiceEndpoint list" where
  "lbPortLoop service [] serviceEndpoints = serviceEndpoints"
| "lbPortLoop service (port # rest) serviceEndpoints =
    lbPortLoop service rest
      (lbIngressLoop service port (Ingress (ServiceStatus.LoadBalancer (Status service))) serviceEndpoints)"

text \<open>The loop of the NodePort case: no host, the node port as port.\<close>

fun nodePortLoop :: "Service \<Rightarrow> ServicePort list \<Rightarrow> ServiceEndpoint list \<Rightarrow> ServiceEndpoint list" where
  "nodePortLoop service [] serviceEndpoints = serviceEndpoints"
| "nodePortLoop service (port # rest) serviceEndpoints =
    nodePortLoop service rest
      (serviceEndpoints @
         [\<lparr>Endpoint = \<lparr>Endpoint.Protocol = ServicePort.Protocol port, AppProtocol = None,
                        Host = '''', Port = NodePort port, Path = ''''\<rparr>,
           Ref = objectRef service\<rparr>])"

text \<open>The switch on \<open>service.Spec.Type\<close>; a type outside the four cases appends nothing.\<close>

definition generatorFromService :: "Service \<Rightarrow> ServiceEndpoint list" where
  "generatorFromService service =
    (if Type (Spec service) = ServiceTypeLoadBalancer
       then lbPortLoop service (Ports (Spec service)) []
     else if Type (Spec service) = ServiceTypeNodePort
       then nodePortLoop service (Ports (Spec service)) []
     else if Type (Spec service) = ServiceTypeClusterIP
             \<or> Type (Spec service) = ServiceTypeExternalName
       then []
     else [])"

section \<open>generatorFromIngress\<close>

text \<open>The loop of \<open>getAppProtocol\<close> over \<open>ingress.Spec.TLS\<close>: it returns at the first entry
  that lists the host or lists no host at all.\<close>

fun tlsLoop :: "IngressTLS list \<Rightarrow> string \<Rightarrow> string" where
  "tlsLoop [] host = ''http''"
| "tlsLoop (tls # rest) host =
    (if 0 < length (Hosts tls) \<and> StringsContain (Hosts tls) host then ''https''
     else if length (Hosts tls) = 0 then ''https''
     else tlsLoop rest host)"

definition getAppProtocol :: "Ingress \<Rightarrow> string \<Rightarrow> string" where
  "getAppProtocol ingress host =
    (if 0 < length (TLS (Spec ingress)) then tlsLoop (TLS (Spec ingress)) host
     else ''http'')"

text \<open>\<open>getEndpointPort\<close> returns a Go \<open>int\<close>.\<close>

definition getEndpointPort :: "Ingress \<Rightarrow> string \<Rightarrow> int" where
  "getEndpointPort ingress appProtocol =
    (if appProtocol = ''https''
     then (case Atoi (mapIndex (Annotations (ObjectMeta ingress)) AnnoIngressControllerHTTPSPort) of
             (port, err) \<Rightarrow> if 0 < port \<and> err = None then port else 443)
     else (case Atoi (mapIndex (Annotations (ObjectMeta ingress)) AnnoIngressControllerHTTPPort) of
             (port, err) \<Rightarrow> if 0 < port \<and> err = None then port else 80))"

text \<open>The loop over \<open>rule.HTTP.Paths\<close>; \<open>int32(appPort)\<close> keeps the low 32 bits.\<close>

fun pathLoop ::
  "Ingress \<Rightarrow> IngressRule \<Rightarrow> string \<Rightarrow> int \<Rightarrow> HTTPIngressPath list \<Rightarrow> ServiceEndpoint list
    \<Rightarrow> ServiceEndpoint list"
where
  "pathLoop ingress rule appProtocol appPort [] serviceEndpoints = serviceEndpoints"
| "pathLoop ingress rule appProtocol appPort (path # rest) serviceEndpoints =
    pathLoop ingress rule appProtocol appPort rest
      (serviceEndpoints @
         [\<lparr>Endpoint = \<lparr>Endpoint.Protocol = ProtocolTCP, AppProtocol = Some appProtocol,
                        Host = IngressRule.Host rule, Port = word_of_int appPort,
                        Path = HTTPIngressPath.Path path\<rparr>,
           Ref = objectRef ingress\<rparr>])"

text \<open>The loop over \<open>ingress.Spec.Rules\<close>.\<close>

fun ruleLoop :: "Ingress \<Rightarrow> IngressRule list \<Rightarrow> ServiceEndpoint list \<Rightarrow> ServiceEndpoint list" where
  "ruleLoop ingress [] serviceEndpoints = serviceEndpoints"
| "ruleLoop ingress (rule # rest) serviceEndpoints =
    (let appProtocol = getAppProtocol ingress (IngressRule.Host rule);
         appPort = getEndpointPort ingress appProtocol
     in ruleLoop ingress rest
          (case HTTP rule of
             None \<Rightarrow> serviceEndpoints
           | Some http \<Rightarrow> pathLoop ingress rule appProtocol appPort (Paths http) serviceEndpoints))"

definition generatorFromIngress :: "Ingress \<Rightarrow> ServiceEndpoint list" where
  "generatorFromIngress ingress = ruleLoop ingress (Rules (Spec ingress)) []"

section \<open>Group, version and kind\<close>

record GroupVersion =
  Group :: string
  Version :: string

record GroupVersionKind =
  Group :: string
  Version :: string
  Kind :: string

text \<open>\<open>schema.ParseGroupVersion\<close> of the Kubernetes API machinery: the empty string and
  \<open>/\<close> give the empty pair, a string with no slash is a version, one slash separates
  group and version, more slashes are an error.\<close>

definition ParseGroupVersion :: "string \<Rightarrow> string + GroupVersion" where
  "ParseGroupVersion gv =
    (if length gv = 0 \<or> gv = ''/'' then Inr \<lparr>GroupVersion.Group = '''', Version = ''''\<rparr>
     else if count_list gv CHR ''/'' = 0 then Inr \<lparr>GroupVersion.Group = '''', Version = gv\<rparr>
     else if count_list gv CHR ''/'' = 1
       then Inr \<lparr>GroupVersion.Group = takeWhile (\<lambda>c. c \<noteq> CHR ''/'') gv,
                 Version = tl (dropWhile (\<lambda>c. c \<noteq> CHR ''/'') gv)\<rparr>
     else Inl (''unexpected GroupVersion string: '' @ gv))"

definition WithKind :: "GroupVersion \<Rightarrow> string \<Rightarrow> GroupVersionKind" where
  "WithKind gv kind =
    \<lparr>GroupVersionKind.Group = GroupVersion.Group gv, Version = GroupVersion.Version gv, Kind = kind\<rparr>"

text \<open>\<open>ObjectReference.GroupVersionKind\<close>, that is \<open>schema.FromAPIVersionAndKind\<close>: an
  unparsable API version leaves only the kind.\<close>

definition FromAPIVersionAndKind :: "string \<Rightarrow> string \<Rightarrow> GroupVersionKind" where
  "FromAPIVersionAndKind apiVersion kind =
    (case ParseGroupVersion apiVersion of
       Inr gv \<Rightarrow> WithKind gv kind
     | Inl err \<Rightarrow> \<lparr>GroupVersionKind.Group = '''', Version = '''', Kind = kind\<rparr>)"

text \<open>\<open>Unstructured.GroupVersionKind\<close>: an unparsable API version gives the empty
  triple.\<close>

definition objGroupVersionKind :: "('spec, 'status) Object \<Rightarrow> GroupVersionKind" where
  "objGroupVersionKind u =
    (case ParseGroupVersion (TypeMeta.APIVersion (TypeMeta u)) of
       Inl err \<Rightarrow> \<lparr>GroupVersionKind.Group = '''', Version = '''', Kind = ''''\<rparr>
     | Inr gv \<Rightarrow> WithKind gv (TypeMeta.Kind (TypeMeta u)))"

text \<open>\<open>SetGroupVersionKind\<close> on a typed object writes \<open>ToAPIVersionAndKind\<close> into its
  \<open>TypeMeta\<close>.\<close>

definition ToAPIVersionAndKind :: "GroupVersionKind \<Rightarrow> string \<times> string" where
  "ToAPIVersionAndKind gvk =
    (if length (GroupVersionKind.Group gvk) = 0 \<and> length (GroupVersionKind.Version gvk) = 0
        \<and> length (GroupVersionKind.Kind gvk) = 0
     then ('''', '''')
     else if 0 < length (GroupVersionKind.Group gvk)
       then (GroupVersionKind.Group gvk @ ''/'' @ GroupVersionKind.Version gvk, GroupVersionKind.Kind gvk)
     else (GroupVersionKind.Version gvk, GroupVersionKind.Kind gvk))"

definition SetGroupVersionKind ::
  "GroupVersionKind \<Rightarrow> ('spec, 'status) Object \<Rightarrow> ('spec, 'status) Object" where
  "SetGroupVersionKind gvk obj =
    (case ToAPIVersionAndKind gvk of
       (apiVersion, kind) \<Rightarrow> obj\<lparr>TypeMeta := \<lparr>TypeMeta.Kind = kind, APIVersion = apiVersion\<rparr>\<rparr>)"

text \<open>The constants of the package, and \<open>networkv1beta1.GroupName\<close>.\<close>

definition HelmReleaseKind :: string where
  "HelmReleaseKind = ''HelmRelease''"

definition fluxcdGroupVersion :: GroupVersion where
  "fluxcdGroupVersion = \<lparr>GroupVersion.Group = ''helm.toolkit.fluxcd.io'', Version = ''v2beta1''\<rparr>"

definition GroupName :: string where
  "GroupName = ''networking.k8s.io''"

section \<open>What a handler gives back\<close>

text \<open>
  A handler returns a Go error (\<open>Inl\<close> of its message) or the result of the one
  \<open>v.FillObject\<close> call it ends with: the field \<open>err\<close> with a message, or a value under
  the field it names. \<open>errors.Wrapf\<close> and \<open>fmt.Errorf\<close> with \<open>%w\<close> prefix the message.
\<close>

datatype 'a Filled = FillErr string | FillObject 'a string

definition Wrapf :: "string \<Rightarrow> string \<Rightarrow> string" where
  "Wrapf err msg = msg @ '': '' @ err"

text \<open>What \<open>client.Get\<close> did: it decoded the object, reported that there is none, or
  failed with another error.\<close>

datatype 'a GetResult = Got 'a | NotFound | GetFailed string

section \<open>CollectPods\<close>

text \<open>The collector the switch picks. \<open>NewPodCollector\<close> is not among the source files: the
  model records the call and its argument.\<close>

datatype PodCollector = helmReleasePodCollector | NewPodCollector GroupVersionKind

text \<open>The fields \<open>value\<close> and \<open>cluster\<close> of the handler's input: \<open>Inl\<close> when the lookup
  fails, and for \<open>value\<close> an inner \<open>Inl\<close> when \<open>UnmarshalTo\<close> fails.\<close>

record ('spec, 'status) PodsInput =
  valueField :: "string + (string + ('spec, 'status) Object)"
  clusterField :: "string + string"

definition CollectPods ::
  "(PodCollector \<Rightarrow> ('spec, 'status) Object \<Rightarrow> string \<Rightarrow> string + 'pod list)
    \<Rightarrow> ('spec, 'status) PodsInput \<Rightarrow> string + 'pod list Filled"
where
  "CollectPods run v =
    (case valueField v of
       Inl err \<Rightarrow> Inl err
     | Inr val \<Rightarrow>
        (case clusterField v of
           Inl err \<Rightarrow> Inl err
         | Inr cluster \<Rightarrow>
            (case val of
               Inl err \<Rightarrow> Inl err
             | Inr obj \<Rightarrow>
                (let collector =
                       (if objGroupVersionKind obj = WithKind fluxcdGroupVersion HelmReleaseKind
                        then helmReleasePodCollector
                        else NewPodCollector (objGroupVersionKind obj))
                 in case run collector obj cluster of
                      Inl err \<Rightarrow> Inr (FillErr err)
                    | Inr pods \<Rightarrow> Inr (FillObject pods ''list'')))))"

section \<open>GeneratorServiceEndpoints\<close>

text \<open>\<open>common.ClusterObjectReference\<close>: a cluster name and an inlined object reference.\<close>

record ClusterObjectReference =
  Cluster :: string
  ObjectReference :: ObjectReference

record FilterOption =
  Cluster :: string
  ClusterNamespace :: string
  Components :: "string list"

record Option =
  Name :: string
  Namespace :: string
  Filter :: FilterOption

record AppStatus =
  AppliedResources :: "ClusterObjectReference list"

type_synonym Application = "(unit, AppStatus) Object"

text \<open>
  The collaborators of the handler. \<open>isResourceInTargetCluster\<close> and the helm release
  collector (\<open>CollectServices\<close>, \<open>CollectIngress\<close>, each returning its list together with
  an error) are not among the source files and stay parameters, as does the client: each
  \<open>get\<close> takes cluster, namespace and name.
\<close>

record Cluster_env =
  isResourceInTargetCluster :: "FilterOption \<Rightarrow> ClusterObjectReference \<Rightarrow> bool"
  getApplication :: "string \<Rightarrow> string \<Rightarrow> string \<Rightarrow> Application GetResult"
  getIngress :: "string \<Rightarrow> string \<Rightarrow> string \<Rightarrow> Ingress GetResult"
  getService :: "string \<Rightarrow> string \<Rightarrow> string \<Rightarrow> Service GetResult"
  CollectServices :: "string \<Rightarrow> string \<Rightarrow> string \<Rightarrow> Service list \<times> string option"
  CollectIngress :: "string \<Rightarrow> string \<Rightarrow> string \<Rightarrow> Ingress list \<times> string option"

text \<open>The zero values of the three object types.\<close>

definition zeroMeta :: ObjectMeta where
  "zeroMeta = \<lparr>ObjectMeta.Name = '''', Namespace = '''', UID = '''', ResourceVersion = '''',
                CreationTimestamp = 0, Annotations = Map.empty\<rparr>"

definition zeroObject :: "'spec \<Rightarrow> 'status \<Rightarrow> ('spec, 'status) Object" where
  "zeroObject spec status =
    \<lparr>TypeMeta = \<lparr>TypeMeta.Kind = '''', APIVersion = ''''\<rparr>, ObjectMeta = zeroMeta,
     Spec = spec, Status = status\<rparr>"

definition zeroIngress :: Ingress where
  "zeroIngress =
    zeroObject \<lparr>TLS = [], Rules = []\<rparr> \<lparr>IngressStatus.LoadBalancer = \<lparr>Ingress = []\<rparr>\<rparr>"

definition zeroService :: Service where
  "zeroService =
    zeroObject \<lparr>Ports = [], Type = ''''\<rparr> \<lparr>ServiceStatus.LoadBalancer = \<lparr>Ingress = []\<rparr>\<rparr>"

definition zeroApplication :: Application where
  "zeroApplication = zeroObject () \<lparr>AppliedResources = []\<rparr>"

text \<open>The closure \<open>findResource\<close>: it names the object, asks the client, and treats a
  missing object as no error, leaving the object as it was passed in.\<close>

definition findResource ::
  "(string \<Rightarrow> string \<Rightarrow> string \<Rightarrow> ('spec, 'status) Object GetResult) \<Rightarrow> ('spec, 'status) Object
    \<Rightarrow> string \<Rightarrow> string \<Rightarrow> string \<Rightarrow> ('spec, 'status) Object \<times> string option"
where
  "findResource get obj0 name namespace cluster =
    (let obj = obj0\<lparr>ObjectMeta := (ObjectMeta obj0)\<lparr>ObjectMeta.Namespace := namespace,
                                                      ObjectMeta.Name := name\<rparr>\<rparr>
     in case get cluster namespace name of
          Got fetched \<Rightarrow> (fetched, None)
        | NotFound \<Rightarrow> (obj, None)
        | GetFailed err \<Rightarrow> (obj, Some err))"

definition resourceGVK :: "ClusterObjectReference \<Rightarrow> GroupVersionKind" where
  "resourceGVK resource =
    FromAPIVersionAndKind (ObjectReference.APIVersion (ObjectReference resource))
      (ObjectReference.Kind (ObjectReference resource))"

text \<open>The two inner loops of the HelmRelease case.\<close>

fun servicesLoop :: "Service list \<Rightarrow> ServiceEndpoint list \<Rightarrow> ServiceEndpoint list" where
  "servicesLoop [] serviceEndpoints = serviceEndpoints"
| "servicesLoop (service # rest) serviceEndpoints =
    servicesLoop rest (serviceEndpoints @ generatorFromService service)"

fun ingressLoop :: "Ingress list \<Rightarrow> ServiceEndpoint list \<Rightarrow> ServiceEndpoint list" where
  "ingressLoop [] serviceEndpoints = serviceEndpoints"
| "ingressLoop (ing # rest) serviceEndpoints =
    ingressLoop rest (serviceEndpoints @ generatorFromIngress ing)"

text \<open>
  One pass of the loop over \<open>app.Status.AppliedResources\<close>: the new value of
  \<open>serviceEndpoints\<close>. A \<open>continue\<close> and the unsupported-version branch leave it as it is;
  what \<open>klog\<close> prints is not part of the result. \<open>helmapi.HelmReleaseGVK.Kind\<close> is the kind
  \<open>HelmRelease\<close>.
\<close>

definition resourceStep ::
  "Cluster_env \<Rightarrow> Option \<Rightarrow> ClusterObjectReference \<Rightarrow> ServiceEndpoint list \<Rightarrow> ServiceEndpoint list"
where
  "resourceStep env opt resource serviceEndpoints =
    (let kind = ObjectReference.Kind (ObjectReference resource);
         name = ObjectReference.Name (ObjectReference resource);
         namespace = ObjectReference.Namespace (ObjectReference resource);
         cluster = ClusterObjectReference.Cluster resource
     in if \<not> isResourceInTargetCluster env (Filter opt) resource then serviceEndpoints
        else if kind = ''Ingress'' then
          (if GroupVersionKind.Group (resourceGVK resource) = GroupName
              \<and> (GroupVersionKind.Version (resourceGVK resource) = ''v1beta1''
                   \<or> GroupVersionKind.Version (resourceGVK resource) = ''v1'')
           then (case findResource (getIngress env) (SetGroupVersionKind (resourceGVK resource) zeroIngress)
                        name namespace cluster of
                   (ingress, Some err) \<Rightarrow> serviceEndpoints
                 | (ingress, None) \<Rightarrow> serviceEndpoints @ generatorFromIngress ingress)
           else serviceEndpoints)
        else if kind = ''Service'' then
          (case findResource (getService env) (SetGroupVersionKind (resourceGVK resource) zeroService)
                  name namespace cluster of
             (service, Some err) \<Rightarrow> serviceEndpoints
           | (service, None) \<Rightarrow> serviceEndpoints @ generatorFromService service)
        else if kind = HelmReleaseKind then
          (case CollectServices env cluster namespace name of
             (services, err1) \<Rightarrow>
               (case CollectIngress env cluster namespace name of
                  (ingress, err2) \<Rightarrow> ingressLoop ingress (servicesLoop services serviceEndpoints)))
        else serviceEndpoints)"

fun resourceLoop ::
  "Cluster_env \<Rightarrow> Option \<Rightarrow> ClusterObjectReference list \<Rightarrow> ServiceEndpoint list \<Rightarrow> ServiceEndpoint list"
where
  "resourceLoop env opt [] serviceEndpoints = serviceEndpoints"
| "resourceLoop env opt (resource # rest) serviceEndpoints =
    resourceLoop env opt rest (resourceStep env opt resource serviceEndpoints)"

text \<open>The handler. Its input is the field \<open>app\<close> decoded into an \<open>Option\<close>, or the error
  of the lookup or of the decoding.\<close>

definition GeneratorServiceEndpoints ::
  "Cluster_env \<Rightarrow> string + Option \<Rightarrow> string + ServiceEndpoint list Filled" where
  "GeneratorServiceEndpoints env appField =
    (case appField of
       Inl err \<Rightarrow> Inl err
     | Inr opt \<Rightarrow>
        (case findResource (getApplication env) zeroApplication (Option.Name opt) (Option.Namespace opt) '''' of
           (app, Some err) \<Rightarrow> Inl (''query app failure '' @ err)
         | (app, None) \<Rightarrow>
             Inr (FillObject (resourceLoop env opt (AppliedResources (Status app)) []) ''list'')))"

section \<open>CollectLogsInPod\<close>

text \<open>The pattern \<open>previous terminated container .+ in pod .+ not found\<close>, searched anywhere
  in the message as \<open>MatchString\<close> does. A matcher takes what is left of the text; the dot
  matches any byte but the newline.\<close>

fun trimPrefix :: "string \<Rightarrow> string \<Rightarrow> string option" where
  "trimPrefix [] s = Some s"
| "trimPrefix (p # ps) [] = None"
| "trimPrefix (p # ps) (c # cs) = (if p = c then trimPrefix ps cs else None)"

definition literal :: "string \<Rightarrow> (string \<Rightarrow> bool) \<Rightarrow> string \<Rightarrow> bool" where
  "literal p k s = (case trimPrefix p s of None \<Rightarrow> False | Some rest \<Rightarrow> k rest)"

fun dotPlus :: "(string \<Rightarrow> bool) \<Rightarrow> string \<Rightarrow> bool" where
  "dotPlus k [] = False"
| "dotPlus k (c # cs) = (c \<noteq> CHR 0x0A \<and> (k cs \<or> dotPlus k cs))"

fun searchFrom :: "(string \<Rightarrow> bool) \<Rightarrow> string \<Rightarrow> bool" where
  "searchFrom k [] = k []"
| "searchFrom k (c # cs) = (k (c # cs) \<or> searchFrom k cs)"

definition terminatedContainerNotFoundRegex :: "string \<Rightarrow> bool" where
  "terminatedContainerNotFoundRegex =
    searchFrom (literal ''previous terminated container ''
      (dotPlus (literal '' in pod '' (dotPlus (literal '' not found'' (\<lambda>rest. True))))))"

definition isTerminatedContainerNotFound :: "string option \<Rightarrow> bool" where
  "isTerminatedContainerNotFound err =
    (case err of None \<Rightarrow> False | Some msg \<Rightarrow> terminatedContainerNotFoundRegex msg)"

text \<open>\<open>corev1.PodLogOptions\<close>; the two \<open>since\<close> fields are pointers.\<close>

record PodLogOptions =
  Container :: string
  Follow :: bool
  Previous :: bool
  SinceSeconds :: "int64 option"
  SinceTime :: "Time option"

text \<open>
  An opened log stream, as the reader sees it: the lines \<open>ReadString\<close> returns with a nil
  error, then the text it returns together with the error that ends the stream, which is
  \<open>io.EOF\<close> or another error.
\<close>

datatype ReadError = EOF | ReadFailed string

record LogStream =
  reads :: "string list"
  lastRead :: string
  endError :: ReadError

text \<open>The read loop: the builder after the loop, and \<open>readErr\<close>.\<close>

fun readLoop :: "string list \<Rightarrow> string \<Rightarrow> ReadError \<Rightarrow> string \<Rightarrow> string \<times> string option" where
  "readLoop [] final err b =
    (b @ final, case err of EOF \<Rightarrow> None | ReadFailed msg \<Rightarrow> Some msg)"
| "readLoop (s # rest) final err b = readLoop rest final err (b @ s)"

text \<open>\<open>time.Second\<close>, and the map the handler fills in under \<open>outputs\<close>.\<close>

definition Second :: int64 where
  "Second = 1000000000"

record LogOutputs =
  logs :: string
  fromDate :: Time
  toDate :: Time
  err :: "string option"

text \<open>The four string fields and the options of the input (the options with an inner
  \<open>Inl\<close> when \<open>UnmarshalTo\<close> fails), and the collaborators: the client set, the pod by
  cluster, namespace and name, the stream of a pod's logs, and the clock read by
  \<open>v1.Now\<close>.\<close>

record LogsInput =
  clusterArg :: "string + string"
  namespaceArg :: "string + string"
  podArg :: "string + string"
  optionsArg :: "string + (string + PodLogOptions)"

record ('spec, 'status) Logs_env =
  NewForConfig :: "string option"
  getPod :: "string \<Rightarrow> string \<Rightarrow> string \<Rightarrow> string + ('spec, 'status) Object"
  Stream :: "string \<Rightarrow> string \<Rightarrow> string \<Rightarrow> PodLogOptions \<Rightarrow> string + LogStream"
  Now :: Time

text \<open>The part of the handler after the pod is fetched. \<open>time.Duration\<close> is an \<open>int64\<close>
  of nanoseconds, so the product wraps; \<open>Add\<close> moves the instant by the signed value.\<close>

definition logsOfPod ::
  "('spec, 'status) Logs_env \<Rightarrow> ('spec, 'status) Object \<Rightarrow> PodLogOptions \<Rightarrow> string + LogStream
    \<Rightarrow> string + LogOutputs Filled"
where
  "logsOfPod env podInst opts streamed =
    (let err = (case streamed of Inl e \<Rightarrow> Some e | Inr readCloser \<Rightarrow> None)
     in if err \<noteq> None \<and> \<not> isTerminatedContainerNotFound err
        then Inl (Wrapf (the err) ''failed to get stream logs'')
        else
          (let (b, readErr) =
                 (case streamed of
                    Inr readCloser \<Rightarrow> readLoop (reads readCloser) (lastRead readCloser) (endError readCloser) ''''
                  | Inl e \<Rightarrow> ('''', Some e));
               toDate = Now env;
               fromDate =
                 (case SinceTime opts of
                    Some t \<Rightarrow> t
                  | None \<Rightarrow>
                     (case SinceSeconds opts of
                        Some secs \<Rightarrow> toDate + sint ((- secs) * Second)
                      | None \<Rightarrow> CreationTimestamp (ObjectMeta podInst)))
           in Inr (FillObject \<lparr>logs = b, fromDate = fromDate, toDate = toDate, err = readErr\<rparr>
                     ''outputs'')))"

definition CollectLogsInPod :: "('spec, 'status) Logs_env \<Rightarrow> LogsInput \<Rightarrow> string + LogOutputs Filled" where
  "CollectLogsInPod env v =
    (case clusterArg v of
       Inl e \<Rightarrow> Inl (Wrapf e ''invalid cluster'')
     | Inr cluster \<Rightarrow>
    (case namespaceArg v of
       Inl e \<Rightarrow> Inl (Wrapf e ''invalid namespace'')
     | Inr namespace \<Rightarrow>
    (case podArg v of
       Inl e \<Rightarrow> Inl (Wrapf e ''invalid pod name'')
     | Inr pod \<Rightarrow>
    (case optionsArg v of
       Inl e \<Rightarrow> Inl (Wrapf e ''invalid log options'')
     | Inr (Inl e) \<Rightarrow> Inl (Wrapf e ''invalid log options content'')
     | Inr (Inr opts) \<Rightarrow>
    (case NewForConfig env of
       Some e \<Rightarrow> Inl (Wrapf e ''failed to create kubernetes clientset'')
     | None \<Rightarrow>
    (case getPod env cluster namespace pod of
       Inl e \<Rightarrow> Inl (Wrapf e ''failed to get pod'')
     | Inr podInst \<Rightarrow> logsOfPod env podInst opts (Stream env cluster namespace pod opts)))))))"

section \<open>Example objects\<close>

text \<open>Concrete objects on which the theorems below are evaluated.\<close>

definition exMeta :: "string \<Rightarrow> (string \<rightharpoonup> string) \<Rightarrow> ObjectMeta" where
  "exMeta name annotations =
    \<lparr>ObjectMeta.Name = name, Namespace = ''default'', UID = ''u-1'', ResourceVersion = ''7'',
     CreationTimestamp = 1600000000000000000, Annotations = annotations\<rparr>"

definition exService :: "string \<Rightarrow> ServicePort list \<Rightarrow> LoadBalancerIngress list \<Rightarrow> Service" where
  "exService type ports entries =
    \<lparr>TypeMeta = \<lparr>TypeMeta.Kind = ''Service'', APIVersion = ''v1''\<rparr>,
     ObjectMeta = exMeta ''web'' Map.empty,
     Spec = \<lparr>Ports = ports, Type = type\<rparr>,
     Status = \<lparr>ServiceStatus.LoadBalancer = \<lparr>Ingress = entries\<rparr>\<rparr>\<rparr>"

definition exPort :: "int32 \<Rightarrow> int32 \<Rightarrow> ServicePort" where
  "exPort port nodePort = \<lparr>ServicePort.Protocol = ''TCP'', Port = port, NodePort = nodePort\<rparr>"

definition exRef :: "string \<Rightarrow> string \<Rightarrow> string \<Rightarrow> ObjectReference" where
  "exRef kind apiVersion name =
    \<lparr>ObjectReference.Kind = kind, Namespace = ''default'', Name = name, UID = ''u-1'',
     APIVersion = apiVersion, ResourceVersion = ''7''\<rparr>"

definition exEndpoint :: "string \<Rightarrow> int32 \<Rightarrow> ServiceEndpoint" where
  "exEndpoint host port =
    \<lparr>Endpoint = \<lparr>Endpoint.Protocol = ''TCP'', AppProtocol = None, Host = host, Port = port, Path = ''''\<rparr>,
     Ref = exRef ''Service'' ''v1'' ''web''\<rparr>"

definition exIngress :: "(string \<rightharpoonup> string) \<Rightarrow> IngressTLS list \<Rightarrow> IngressRule list \<Rightarrow> Ingress" where
  "exIngress annotations tls rules =
    \<lparr>TypeMeta = \<lparr>TypeMeta.Kind = ''Ingress'', APIVersion = ''networking.k8s.io/v1''\<rparr>,
     ObjectMeta = exMeta ''front'' annotations,
     Spec = \<lparr>TLS = tls, Rules = rules\<rparr>,
     Status = \<lparr>IngressStatus.LoadBalancer = \<lparr>Ingress = []\<rparr>\<rparr>\<rparr>"

definition exRule :: "string \<Rightarrow> string list \<Rightarrow> IngressRule" where
  "exRule host paths =
    \<lparr>IngressRule.Host = host, HTTP = Some \<lparr>Paths = map (\<lambda>p. \<lparr>HTTPIngressPath.Path = p\<rparr>) paths\<rparr>\<rparr>"

definition exIngressEndpoint :: "string \<Rightarrow> string \<Rightarrow> int32 \<Rightarrow> string \<Rightarrow> ServiceEndpoint" where
  "exIngressEndpoint appProtocol host port path =
    \<lparr>Endpoint = \<lparr>Endpoint.Protocol = ''TCP'', AppProtocol = Some appProtocol, Host = host, Port = port,
                  Path = path\<rparr>,
     Ref = exRef ''Ingress'' ''networking.k8s.io/v1'' ''front''\<rparr>"

definition exResource :: "string \<Rightarrow> string \<Rightarrow> string \<Rightarrow> ClusterObjectReference" where
  "exResource kind apiVersion name =
    \<lparr>ClusterObjectReference.Cluster = ''c1'', ObjectReference = exRef kind apiVersion name\<rparr>"

definition exApplication :: "ClusterObjectReference list \<Rightarrow> Application" where
  "exApplication resources =
    \<lparr>TypeMeta = \<lparr>TypeMeta.Kind = ''Application'', APIVersion = ''core.oam.dev/v1beta1''\<rparr>,
     ObjectMeta = exMeta ''app'' Map.empty, Spec = (),
     Status = \<lparr>AppliedResources = resources\<rparr>\<rparr>"

definition exOption :: Option where
  "exOption =
    \<lparr>Option.Name = ''app'', Namespace = ''default'',
     Filter = \<lparr>FilterOption.Cluster = '''', ClusterNamespace = '''', Components = []\<rparr>\<rparr>"

text \<open>A cluster that holds the application with the given resources, one NodePort service
  \<open>web\<close> and one ingress \<open>front\<close>, and no helm release.\<close>

definition exCluster :: "ClusterObjectReference list \<Rightarrow> Cluster_env" where
  "exCluster resources =
    \<lparr>isResourceInTargetCluster = (\<lambda>filter resource. True),
     getApplication = (\<lambda>cluster namespace name. Got (exApplication resources)),
     getIngress = (\<lambda>cluster namespace name. Got (exIngress Map.empty [] [exRule ''a.example.com'' [''/'']])),
     getService = (\<lambda>cluster namespace name. Got (exService ''NodePort'' [exPort 80 30080] [])),
     CollectServices = (\<lambda>cluster namespace name. ([], None)),
     CollectIngress = (\<lambda>cluster namespace name. ([], None))\<rparr>"

definition exPod :: "(unit, unit) Object" where
  "exPod =
    \<lparr>TypeMeta = \<lparr>TypeMeta.Kind = ''Pod'', APIVersion = ''v1''\<rparr>,
     ObjectMeta = exMeta ''web-0'' Map.empty, Spec = (), Status = ()\<rparr>"

definition exLogOptions :: "int64 option \<Rightarrow> Time option \<Rightarrow> PodLogOptions" where
  "exLogOptions sinceSeconds sinceTime =
    \<lparr>Container = ''app'', Follow = False, Previous = True, SinceSeconds = sinceSeconds,
     SinceTime = sinceTime\<rparr>"

definition exLogsInput :: "PodLogOptions \<Rightarrow> LogsInput" where
  "exLogsInput opts =
    \<lparr>clusterArg = Inr ''c1'', namespaceArg = Inr ''default'', podArg = Inr ''web-0'',
     optionsArg = Inr (Inr opts)\<rparr>"

definition exLogsEnv :: "string + LogStream \<Rightarrow> (unit, unit) Logs_env" where
  "exLogsEnv streamed =
    \<lparr>NewForConfig = None,
     getPod = (\<lambda>cluster namespace pod. Inr exPod),
     Stream = (\<lambda>cluster namespace pod opts. streamed),
     Now = 1700000000000000000\<rparr>"

definition exObject :: "string \<Rightarrow> string \<Rightarrow> (unit, unit) Object" where
  "exObject apiVersion kind =
    \<lparr>TypeMeta = \<lparr>TypeMeta.Kind = kind, APIVersion = apiVersion\<rparr>,
     ObjectMeta = exMeta ''release'' Map.empty, Spec = (), Status = ()\<rparr>"

section \<open>The loops as list expressions\<close>

text \<open>Every loop appends to \<open>serviceEndpoints\<close>, so its result is the list it started with
  followed by what each pass contributes, in the order of the passes.\<close>

lemma StringsContain_set: "StringsContain items source = (source \<in> set items)"
  by (induction items) auto

lemma lbIngressLoop_acc:
  "lbIngressLoop service port ings acc =
     acc @ concat (map (\<lambda>ingress.
        (if Hostname ingress \<noteq> ''''
         then [\<lparr>Endpoint = \<lparr>Endpoint.Protocol = ServicePort.Protocol port, AppProtocol = None,
                              Host = Hostname ingress, Port = ServicePort.Port port, Path = ''''\<rparr>,
                 Ref = objectRef service\<rparr>] else [])
        @ (if IP ingress \<noteq> ''''
         then [\<lparr>Endpoint = \<lparr>Endpoint.Protocol = ServicePort.Protocol port, AppProtocol = None,
                              Host = IP ingress, Port = ServicePort.Port port, Path = ''''\<rparr>,
                 Ref = objectRef service\<rparr>] else [])) ings)"
  by (induction ings arbitrary: acc) (simp_all add: Let_def)

lemma lbPortLoop_acc:
  "lbPortLoop service ports acc =
     acc @ concat (map (\<lambda>port.
        lbIngressLoop service port (Ingress (ServiceStatus.LoadBalancer (Status service))) []) ports)"
proof (induction ports arbitrary: acc)
  case Nil
  show ?case by simp
next
  case (Cons port rest)
  have "lbIngressLoop service port (Ingress (ServiceStatus.LoadBalancer (Status service))) acc
        = acc @ lbIngressLoop service port (Ingress (ServiceStatus.LoadBalancer (Status service))) []"
    by (simp add: lbIngressLoop_acc [of _ _ _ acc] lbIngressLoop_acc [of _ _ _ "[]"])
  then show ?case by (simp add: Cons.IH)
qed

lemma nodePortLoop_acc:
  "nodePortLoop service ports acc =
     acc @ map (\<lambda>port. \<lparr>Endpoint = \<lparr>Endpoint.Protocol = ServicePort.Protocol port, AppProtocol = None,
                                   Host = '''', Port = NodePort port, Path = ''''\<rparr>,
                      Ref = objectRef service\<rparr>) ports"
  by (induction ports arbitrary: acc) simp_all

lemma pathLoop_acc:
  "pathLoop ingress rule appProtocol appPort paths acc =
     acc @ map (\<lambda>path. \<lparr>Endpoint = \<lparr>Endpoint.Protocol = ProtocolTCP, AppProtocol = Some appProtocol,
                                   Host = IngressRule.Host rule, Port = word_of_int appPort,
                                   Path = HTTPIngressPath.Path path\<rparr>,
                      Ref = objectRef ingress\<rparr>) paths"
  by (induction paths arbitrary: acc) simp_all

lemma ruleLoop_acc:
  "ruleLoop ingress rules acc =
     acc @ concat (map (\<lambda>rule.
        case HTTP rule of
          None \<Rightarrow> []
        | Some http \<Rightarrow>
            pathLoop ingress rule (getAppProtocol ingress (IngressRule.Host rule))
              (getEndpointPort ingress (getAppProtocol ingress (IngressRule.Host rule))) (Paths http) [])
       rules)"
proof (induction rules arbitrary: acc)
  case Nil
  show ?case by simp
next
  case (Cons rule rest)
  show ?case
  proof (cases "HTTP rule")
    case None
    then show ?thesis by (simp add: Cons.IH Let_def)
  next
    case (Some http)
    then show ?thesis
      by (simp add: Cons.IH Let_def pathLoop_acc [of _ _ _ _ _ acc] pathLoop_acc [of _ _ _ _ _ "[]"])
  qed
qed

lemma tlsLoop_https:
  "tlsLoop tlss host =
    (if list_ex (\<lambda>tls. StringsContain (Hosts tls) host \<or> Hosts tls = []) tlss then ''https'' else ''http'')"
  by (induction tlss) auto

lemma resourceLoop_append:
  "resourceLoop env opt (xs @ ys) acc = resourceLoop env opt ys (resourceLoop env opt xs acc)"
  by (induction xs arbitrary: acc) simp_all

lemma concat_map_single:
  "(\<And>x. x \<in> set xs \<Longrightarrow> f x = [g x]) \<Longrightarrow> concat (map f xs) = map g xs"
  by (induction xs) simp_all

lemma lbIngressLoop_one_address:
  assumes "\<forall>ingress \<in> set ings. (Hostname ingress = '''') \<noteq> (IP ingress = '''')"
  shows "lbIngressLoop service port ings [] =
     map (\<lambda>ingress.
        \<lparr>Endpoint = \<lparr>Endpoint.Protocol = ServicePort.Protocol port, AppProtocol = None,
                      Host = (if Hostname ingress \<noteq> '''' then Hostname ingress else IP ingress),
                      Port = ServicePort.Port port, Path = ''''\<rparr>,
         Ref = objectRef service\<rparr>) ings"
  unfolding lbIngressLoop_acc append_Nil
  by (rule concat_map_single) (use assms in auto)

lemmas ex_defs = exMeta_def exService_def exPort_def exRef_def exEndpoint_def exIngress_def exRule_def
  exIngressEndpoint_def exResource_def exApplication_def exOption_def exCluster_def exPod_def
  exLogOptions_def exLogsInput_def exLogsEnv_def exObject_def objectRef_def
  ServiceTypeClusterIP_def ServiceTypeNodePort_def ServiceTypeLoadBalancer_def
  ServiceTypeExternalName_def ProtocolTCP_def

section \<open>Endpoints of a Service\<close>

text \<open>
  C1, as amended. For a Service of type LoadBalancer the generator walks the ports in
  order and, under each port, the load-balancer ingress entries in order. A (port, entry)
  pair gives an endpoint whose host is the hostname when the hostname is not empty, and
  then an endpoint whose host is the IP when the IP is not empty: one endpoint for an entry
  with exactly one of the two, two for an entry with both, none for an entry with
  neither. Protocol and port of each endpoint are the service port's \<open>Protocol\<close> and
  \<open>Port\<close>, not its \<open>NodePort\<close>.
\<close>

theorem generatorFromService_LoadBalancer:
  assumes "Type (Spec service) = ServiceTypeLoadBalancer"
  shows "generatorFromService service =
     concat (map (\<lambda>port. concat (map (\<lambda>ingress.
        (if Hostname ingress \<noteq> ''''
         then [\<lparr>Endpoint = \<lparr>Endpoint.Protocol = ServicePort.Protocol port, AppProtocol = None,
                              Host = Hostname ingress, Port = ServicePort.Port port, Path = ''''\<rparr>,
                 Ref = objectRef service\<rparr>] else [])
        @ (if IP ingress \<noteq> ''''
         then [\<lparr>Endpoint = \<lparr>Endpoint.Protocol = ServicePort.Protocol port, AppProtocol = None,
                              Host = IP ingress, Port = ServicePort.Port port, Path = ''''\<rparr>,
                 Ref = objectRef service\<rparr>] else []))
       (Ingress (ServiceStatus.LoadBalancer (Status service))))) (Ports (Spec service)))
   \<and> ((\<forall>ingress \<in> set (Ingress (ServiceStatus.LoadBalancer (Status service))).
          (Hostname ingress = '''') \<noteq> (IP ingress = '''')) \<longrightarrow>
       generatorFromService service =
         concat (map (\<lambda>port. map (\<lambda>ingress.
            \<lparr>Endpoint = \<lparr>Endpoint.Protocol = ServicePort.Protocol port, AppProtocol = None,
                          Host = (if Hostname ingress \<noteq> '''' then Hostname ingress else IP ingress),
                          Port = ServicePort.Port port, Path = ''''\<rparr>,
             Ref = objectRef service\<rparr>)
           (Ingress (ServiceStatus.LoadBalancer (Status service)))) (Ports (Spec service))))"
proof (intro conjI impI)
  show "generatorFromService service =
     concat (map (\<lambda>port. concat (map (\<lambda>ingress.
        (if Hostname ingress \<noteq> ''''
         then [\<lparr>Endpoint = \<lparr>Endpoint.Protocol = ServicePort.Protocol port, AppProtocol = None,
                              Host = Hostname ingress, Port = ServicePort.Port port, Path = ''''\<rparr>,
                 Ref = objectRef service\<rparr>] else [])
        @ (if IP ingress \<noteq> ''''
         then [\<lparr>Endpoint = \<lparr>Endpoint.Protocol = ServicePort.Protocol port, AppProtocol = None,
                              Host = IP ingress, Port = ServicePort.Port port, Path = ''''\<rparr>,
                 Ref = objectRef service\<rparr>] else []))
       (Ingress (ServiceStatus.LoadBalancer (Status service))))) (Ports (Spec service)))"
    using assms by (simp add: generatorFromService_def lbPortLoop_acc lbIngressLoop_acc)
next
  assume "\<forall>ingress \<in> set (Ingress (ServiceStatus.LoadBalancer (Status service))).
          (Hostname ingress = '''') \<noteq> (IP ingress = '''')"
  then show "generatorFromService service =
         concat (map (\<lambda>port. map (\<lambda>ingress.
            \<lparr>Endpoint = \<lparr>Endpoint.Protocol = ServicePort.Protocol port, AppProtocol = None,
                          Host = (if Hostname ingress \<noteq> '''' then Hostname ingress else IP ingress),
                          Port = ServicePort.Port port, Path = ''''\<rparr>,
             Ref = objectRef service\<rparr>)
           (Ingress (ServiceStatus.LoadBalancer (Status service)))) (Ports (Spec service)))"
    using assms by (simp add: generatorFromService_def lbPortLoop_acc lbIngressLoop_one_address)
qed

text \<open>The first testable property of the specification: two ports and two entries, one
  with a hostname and one with an IP, give four endpoints.\<close>

theorem generatorFromService_LoadBalancer_witness:
  "Type (Spec (exService ''LoadBalancer'' [exPort 80 30080, exPort 443 30443]
      [\<lparr>IP = '''', Hostname = ''lb.example.com''\<rparr>, \<lparr>IP = ''10.0.0.1'', Hostname = ''''\<rparr>]))
     = ServiceTypeLoadBalancer
   \<and> list_all (\<lambda>ingress. (Hostname ingress = '''') \<noteq> (IP ingress = ''''))
        [\<lparr>IP = '''', Hostname = ''lb.example.com''\<rparr>, \<lparr>IP = ''10.0.0.1'', Hostname = ''''\<rparr>]
   \<and> generatorFromService (exService ''LoadBalancer'' [exPort 80 30080, exPort 443 30443]
      [\<lparr>IP = '''', Hostname = ''lb.example.com''\<rparr>, \<lparr>IP = ''10.0.0.1'', Hostname = ''''\<rparr>])
     = [exEndpoint ''lb.example.com'' 80, exEndpoint ''10.0.0.1'' 80,
        exEndpoint ''lb.example.com'' 443, exEndpoint ''10.0.0.1'' 443]"
  using generatorFromService_LoadBalancer [of "exService ''LoadBalancer'' [exPort 80 30080, exPort 443 30443]
      [\<lparr>IP = '''', Hostname = ''lb.example.com''\<rparr>, \<lparr>IP = ''10.0.0.1'', Hostname = ''''\<rparr>]"]
  by (simp add: ex_defs)

text \<open>C1 as stated fails: one port and one entry that has both a hostname and an IP give
  two endpoints for the one pair, and the second has the IP as host although the entry
  has a hostname.\<close>

theorem generatorFromService_LoadBalancer_counterexample:
  "length (Ports (Spec (exService ''LoadBalancer'' [exPort 80 30080]
      [\<lparr>IP = ''10.0.0.1'', Hostname = ''lb.example.com''\<rparr>]))) = 1
   \<and> length (Ingress (ServiceStatus.LoadBalancer (Status (exService ''LoadBalancer'' [exPort 80 30080]
      [\<lparr>IP = ''10.0.0.1'', Hostname = ''lb.example.com''\<rparr>])))) = 1
   \<and> generatorFromService (exService ''LoadBalancer'' [exPort 80 30080]
      [\<lparr>IP = ''10.0.0.1'', Hostname = ''lb.example.com''\<rparr>])
     = [exEndpoint ''lb.example.com'' 80, exEndpoint ''10.0.0.1'' 80]"
  by (simp add: ex_defs generatorFromService_def)

text \<open>
  C5. For a Service of type NodePort the generator gives one endpoint for each service
  port, in order, with an empty host and the port's node port as port; for a Service of
  type ClusterIP or ExternalName it gives no endpoint.
\<close>

theorem generatorFromService_NodePort:
  "(Type (Spec service) = ServiceTypeNodePort \<longrightarrow>
      generatorFromService service =
        map (\<lambda>port. \<lparr>Endpoint = \<lparr>Endpoint.Protocol = ServicePort.Protocol port, AppProtocol = None,
                                   Host = '''', Port = NodePort port, Path = ''''\<rparr>,
                      Ref = objectRef service\<rparr>) (Ports (Spec service)))
   \<and> (Type (Spec service) = ServiceTypeClusterIP \<or> Type (Spec service) = ServiceTypeExternalName \<longrightarrow>
      generatorFromService service = [])"
  by (simp add: generatorFromService_def nodePortLoop_acc ServiceTypeClusterIP_def
      ServiceTypeNodePort_def ServiceTypeLoadBalancer_def ServiceTypeExternalName_def)

theorem generatorFromService_NodePort_witness:
  "Type (Spec (exService ''NodePort'' [exPort 80 30080, exPort 443 30443, exPort 9090 31000] []))
     = ServiceTypeNodePort
   \<and> generatorFromService (exService ''NodePort'' [exPort 80 30080, exPort 443 30443, exPort 9090 31000] [])
       = [exEndpoint '''' 30080, exEndpoint '''' 30443, exEndpoint '''' 31000]
   \<and> Type (Spec (exService ''ClusterIP'' [exPort 80 0] [])) = ServiceTypeClusterIP
   \<and> generatorFromService (exService ''ClusterIP'' [exPort 80 0] []) = []
   \<and> Type (Spec (exService ''ExternalName'' [exPort 80 0] [])) = ServiceTypeExternalName
   \<and> generatorFromService (exService ''ExternalName'' [exPort 80 0] []) = []"
  using generatorFromService_NodePort [of "exService ''NodePort'' [exPort 80 30080, exPort 443 30443, exPort 9090 31000] []"]
    generatorFromService_NodePort [of "exService ''ClusterIP'' [exPort 80 0] []"]
    generatorFromService_NodePort [of "exService ''ExternalName'' [exPort 80 0] []"]
  by (simp add: ex_defs)

section \<open>Endpoints of an Ingress\<close>

lemma generatorFromIngress_concat:
  "generatorFromIngress ingress =
     concat (map (\<lambda>rule.
        case HTTP rule of
          None \<Rightarrow> []
        | Some http \<Rightarrow>
            map (\<lambda>path.
              \<lparr>Endpoint = \<lparr>Endpoint.Protocol = ProtocolTCP,
                            AppProtocol = Some (getAppProtocol ingress (IngressRule.Host rule)),
                            Host = IngressRule.Host rule,
                            Port = word_of_int (getEndpointPort ingress
                                     (getAppProtocol ingress (IngressRule.Host rule))),
                            Path = HTTPIngressPath.Path path\<rparr>,
               Ref = objectRef ingress\<rparr>) (Paths http))
       (Rules (Spec ingress)))"
  by (simp add: generatorFromIngress_def ruleLoop_acc pathLoop_acc cong: option.case_cong)

lemma generatorFromIngress_member:
  assumes "se \<in> set (generatorFromIngress ingress)"
  shows "Endpoint.Protocol (Endpoint se) = ProtocolTCP
    \<and> AppProtocol (Endpoint se) = Some (getAppProtocol ingress (Endpoint.Host (Endpoint se)))
    \<and> Endpoint.Port (Endpoint se) =
          word_of_int (getEndpointPort ingress (getAppProtocol ingress (Endpoint.Host (Endpoint se))))"
  using assms by (auto simp: generatorFromIngress_concat split: option.splits)

lemma getAppProtocol_list_ex:
  "getAppProtocol ingress host =
    (if list_ex (\<lambda>tls. StringsContain (Hosts tls) host \<or> Hosts tls = []) (TLS (Spec ingress))
     then ''https'' else ''http'')"
  by (cases "TLS (Spec ingress)") (simp_all add: getAppProtocol_def tlsLoop_https)

lemma getAppProtocol_set:
  "getAppProtocol ingress host =
    (if \<exists>tls \<in> set (TLS (Spec ingress)). host \<in> set (Hosts tls) \<or> Hosts tls = []
     then ''https'' else ''http'')"
  by (simp add: getAppProtocol_list_ex list_ex_iff StringsContain_set)

lemma Atoi_empty: "Atoi '''' = (0, Some ErrSyntax)"
  by (simp add: Atoi_def)

lemma Atoi_4294967296: "Atoi ''4294967296'' = (4294967296, None)"
  by (simp add: Atoi_def isDigit_def maxUint64_def)

lemma Atoi_8443: "Atoi ''8443'' = (8443, None)"
  by (simp add: Atoi_def isDigit_def maxUint64_def)

lemmas port_defs = getEndpointPort_def mapIndex_def AnnoIngressControllerHTTPSPort_def
  AnnoIngressControllerHTTPPort_def Atoi_empty

text \<open>
  C2, as amended. The generator gives one endpoint for each path of each rule that has an
  HTTP section, in the order of the rules and of their paths, whether the rule's host is
  empty or not; a rule without an HTTP section gives no endpoint.
\<close>

theorem generatorFromIngress_rules:
  "generatorFromIngress ingress =
     concat (map (\<lambda>rule.
        case HTTP rule of
          None \<Rightarrow> []
        | Some http \<Rightarrow>
            map (\<lambda>path.
              \<lparr>Endpoint = \<lparr>Endpoint.Protocol = ProtocolTCP,
                            AppProtocol = Some (getAppProtocol ingress (IngressRule.Host rule)),
                            Host = IngressRule.Host rule,
                            Port = word_of_int (getEndpointPort ingress
                                     (getAppProtocol ingress (IngressRule.Host rule))),
                            Path = HTTPIngressPath.Path path\<rparr>,
               Ref = objectRef ingress\<rparr>) (Paths http))
       (Rules (Spec ingress)))"
  by (rule generatorFromIngress_concat)

theorem generatorFromIngress_rules_witness:
  "generatorFromIngress (exIngress Map.empty []
      [exRule ''a.example.com'' [''/'', ''/api''], \<lparr>IngressRule.Host = ''b.example.com'', HTTP = None\<rparr>,
       exRule '''' [''/x'']])
   = [exIngressEndpoint ''http'' ''a.example.com'' 80 ''/'',
      exIngressEndpoint ''http'' ''a.example.com'' 80 ''/api'',
      exIngressEndpoint ''http'' '''' 80 ''/x'']"
  using generatorFromIngress_rules [of "exIngress Map.empty []
      [exRule ''a.example.com'' [''/'', ''/api''], \<lparr>IngressRule.Host = ''b.example.com'', HTTP = None\<rparr>,
       exRule '''' [''/x'']]"]
  by (simp add: ex_defs getAppProtocol_def port_defs)

text \<open>C2 as stated fails: a rule whose host is empty and which has an HTTP section with one
  path gives an endpoint.\<close>

theorem generatorFromIngress_rules_counterexample:
  "IngressRule.Host (exRule '''' [''/x'']) = ''''
   \<and> generatorFromIngress (exIngress Map.empty [] [exRule '''' [''/x'']])
       = [exIngressEndpoint ''http'' '''' 80 ''/x'']"
  by (simp add: ex_defs generatorFromIngress_def getAppProtocol_def port_defs)

text \<open>
  C3. \<open>getAppProtocol\<close> answers \<open>https\<close> for a host exactly when some TLS entry of the
  ingress lists the host or lists no host at all, and \<open>http\<close> otherwise; every endpoint
  the generator derives carries that answer for its rule's host as its \<open>AppProtocol\<close>.
\<close>

theorem getAppProtocol_https:
  "getAppProtocol ingress host =
     (if \<exists>tls \<in> set (TLS (Spec ingress)). host \<in> set (Hosts tls) \<or> Hosts tls = []
      then ''https'' else ''http'')
   \<and> (\<forall>se \<in> set (generatorFromIngress ingress).
        AppProtocol (Endpoint se) =
          Some (if \<exists>tls \<in> set (TLS (Spec ingress)).
                     Endpoint.Host (Endpoint se) \<in> set (Hosts tls) \<or> Hosts tls = []
                then ''https'' else ''http''))"
proof
  show "getAppProtocol ingress host =
     (if \<exists>tls \<in> set (TLS (Spec ingress)). host \<in> set (Hosts tls) \<or> Hosts tls = []
      then ''https'' else ''http'')"
    by (rule getAppProtocol_set)
next
  show "\<forall>se \<in> set (generatorFromIngress ingress).
        AppProtocol (Endpoint se) =
          Some (if \<exists>tls \<in> set (TLS (Spec ingress)).
                     Endpoint.Host (Endpoint se) \<in> set (Hosts tls) \<or> Hosts tls = []
                then ''https'' else ''http'')"
  proof
    fix se
    assume "se \<in> set (generatorFromIngress ingress)"
    then have "AppProtocol (Endpoint se) = Some (getAppProtocol ingress (Endpoint.Host (Endpoint se)))"
      by (simp add: generatorFromIngress_member)
    then show "AppProtocol (Endpoint se) =
          Some (if \<exists>tls \<in> set (TLS (Spec ingress)).
                     Endpoint.Host (Endpoint se) \<in> set (Hosts tls) \<or> Hosts tls = []
                then ''https'' else ''http'')"
      by (simp only: getAppProtocol_set)
  qed
qed

text \<open>The fourth testable property of the specification, and a blanket TLS entry.\<close>

theorem getAppProtocol_https_witness:
  "getAppProtocol (exIngress Map.empty [\<lparr>Hosts = [''a.example.com'']\<rparr>]
       [exRule ''a.example.com'' [''/''], exRule ''b.example.com'' [''/'']]) ''a.example.com'' = ''https''
   \<and> getAppProtocol (exIngress Map.empty [\<lparr>Hosts = [''a.example.com'']\<rparr>]
       [exRule ''a.example.com'' [''/''], exRule ''b.example.com'' [''/'']]) ''b.example.com'' = ''http''
   \<and> getAppProtocol (exIngress Map.empty [\<lparr>Hosts = [''a.example.com'']\<rparr>, \<lparr>Hosts = []\<rparr>]
       [exRule ''b.example.com'' [''/'']]) ''b.example.com'' = ''https''
   \<and> map (\<lambda>se. AppProtocol (Endpoint se))
        (generatorFromIngress (exIngress Map.empty [\<lparr>Hosts = [''a.example.com'']\<rparr>]
           [exRule ''a.example.com'' [''/''], exRule ''b.example.com'' [''/'']]))
      = [Some ''https'', Some ''http'']"
  using getAppProtocol_https [of "exIngress Map.empty [\<lparr>Hosts = [''a.example.com'']\<rparr>]
       [exRule ''a.example.com'' [''/''], exRule ''b.example.com'' [''/'']]" "''a.example.com''"]
    getAppProtocol_https [of "exIngress Map.empty [\<lparr>Hosts = [''a.example.com'']\<rparr>]
       [exRule ''a.example.com'' [''/''], exRule ''b.example.com'' [''/'']]" "''b.example.com''"]
    getAppProtocol_https [of "exIngress Map.empty [\<lparr>Hosts = [''a.example.com'']\<rparr>, \<lparr>Hosts = []\<rparr>]
       [exRule ''b.example.com'' [''/'']]" "''b.example.com''"]
  by (simp add: ex_defs generatorFromIngress_def port_defs)

subsection \<open>The port of an ingress endpoint\<close>

lemma getEndpointPort_Atoi:
  "getEndpointPort ingress appProtocol =
    (let annotation = mapIndex (Annotations (ObjectMeta ingress))
                        (if appProtocol = ''https'' then AnnoIngressControllerHTTPSPort
                         else AnnoIngressControllerHTTPPort)
     in if 0 < fst (Atoi annotation) \<and> snd (Atoi annotation) = None then fst (Atoi annotation)
        else if appProtocol = ''https'' then 443 else 80)"
  by (simp add: getEndpointPort_def Let_def split: prod.splits)

lemma getEndpointPort_positive: "0 < getEndpointPort ingress appProtocol"
  by (simp add: getEndpointPort_Atoi Let_def)

lemma int32_of_port:
  assumes "0 < p" and "p < 2147483648"
  shows "sint (word_of_int p :: int32) = p"
proof -
  have "sint (word_of_int p :: int32) = signed_take_bit 31 p"
    by (simp add: signed_of_int)
  also have "\<dots> = p"
    using assms by (intro signed_take_bit_int_eq_self) simp_all
  finally show ?thesis .
qed

text \<open>What holds of every ingress endpoint: the transport protocol is TCP, and while the
  port \<open>getEndpointPort\<close> chose fits an \<open>int32\<close> the endpoint carries exactly that port.\<close>

lemma generatorFromIngress_port_in_range:
  assumes "se \<in> set (generatorFromIngress ingress)"
    and "getEndpointPort ingress (getAppProtocol ingress (Endpoint.Host (Endpoint se))) < 2147483648"
  shows "Endpoint.Protocol (Endpoint se) = ProtocolTCP
    \<and> sint (Endpoint.Port (Endpoint se)) =
        getEndpointPort ingress (getAppProtocol ingress (Endpoint.Host (Endpoint se)))"
  using assms generatorFromIngress_member [OF assms(1)]
  by (simp add: int32_of_port getEndpointPort_positive)

text \<open>The fifth testable property of the specification: the annotation \<open>8443\<close> on an https
  rule, and the default without it.\<close>

lemma generatorFromIngress_https_port_annotation:
  "generatorFromIngress (exIngress [AnnoIngressControllerHTTPSPort \<mapsto> ''8443''] [\<lparr>Hosts = []\<rparr>]
         [exRule ''a.example.com'' [''/'']])
      = [exIngressEndpoint ''https'' ''a.example.com'' 8443 ''/'']
   \<and> generatorFromIngress (exIngress Map.empty [\<lparr>Hosts = []\<rparr>] [exRule ''a.example.com'' [''/'']])
      = [exIngressEndpoint ''https'' ''a.example.com'' 443 ''/'']"
  by (simp add: ex_defs generatorFromIngress_def getAppProtocol_def getEndpointPort_def mapIndex_def
      AnnoIngressControllerHTTPSPort_def Atoi_8443 Atoi_empty)

text \<open>
  C4 fails on the code at the annotation \<open>ingress.controller/http-port: "4294967296"\<close>. The
  value parses as a positive integer, \<open>getEndpointPort\<close> returns it, and the conversion
  \<open>int32(appPort)\<close> keeps its low 32 bits: the endpoint's port is 0, neither the integer
  value of the annotation nor the default 80.
\<close>

theorem getEndpointPort_wraps:
  "Atoi ''4294967296'' = (4294967296, None)
   \<and> getEndpointPort (exIngress [AnnoIngressControllerHTTPPort \<mapsto> ''4294967296''] []
         [exRule ''a.example.com'' [''/'']]) ''http'' = 4294967296
   \<and> generatorFromIngress (exIngress [AnnoIngressControllerHTTPPort \<mapsto> ''4294967296''] []
         [exRule ''a.example.com'' [''/'']])
      = [exIngressEndpoint ''http'' ''a.example.com'' 0 ''/'']"
  by (simp add: ex_defs generatorFromIngress_def getAppProtocol_def getEndpointPort_def mapIndex_def
      AnnoIngressControllerHTTPPort_def Atoi_4294967296)

section \<open>The handler GeneratorServiceEndpoints\<close>

lemma resourceStep_unsupported_Ingress:
  assumes "ObjectReference.Kind (ObjectReference resource) = ''Ingress''"
    and "GroupVersionKind.Group (resourceGVK resource) \<noteq> GroupName
         \<or> (GroupVersionKind.Version (resourceGVK resource) \<noteq> ''v1beta1''
             \<and> GroupVersionKind.Version (resourceGVK resource) \<noteq> ''v1'')"
  shows "resourceStep env opt resource serviceEndpoints = serviceEndpoints"
  using assms by (auto simp: resourceStep_def Let_def)

lemmas gvk_defs = resourceGVK_def FromAPIVersionAndKind_def ParseGroupVersion_def WithKind_def
  GroupName_def HelmReleaseKind_def

text \<open>
  C6. Let an applied resource have kind Ingress and a group other than
  \<open>networking.k8s.io\<close>, or a version that is neither \<open>v1beta1\<close> nor \<open>v1\<close>. Its pass of the
  loop leaves the endpoints as they are, the loop over the whole list gives what it gives
  on the list without that resource, and the handler ends by filling in \<open>list\<close>, not with
  an error.
\<close>

theorem GeneratorServiceEndpoints_unsupported_Ingress:
  assumes "ObjectReference.Kind (ObjectReference resource) = ''Ingress''"
    and "GroupVersionKind.Group (resourceGVK resource) \<noteq> GroupName
         \<or> (GroupVersionKind.Version (resourceGVK resource) \<noteq> ''v1beta1''
             \<and> GroupVersionKind.Version (resourceGVK resource) \<noteq> ''v1'')"
    and "getApplication env '''' (Option.Namespace opt) (Option.Name opt) = Got app"
    and "AppliedResources (Status app) = before @ resource # after"
  shows "resourceStep env opt resource serviceEndpoints = serviceEndpoints
    \<and> resourceLoop env opt (before @ resource # after) serviceEndpoints
        = resourceLoop env opt (before @ after) serviceEndpoints
    \<and> GeneratorServiceEndpoints env (Inr opt)
        = Inr (FillObject (resourceLoop env opt (before @ after) []) ''list'')"
proof -
  have step: "resourceStep env opt resource acc = acc" for acc
    using assms(1,2) by (rule resourceStep_unsupported_Ingress)
  have loop: "resourceLoop env opt (before @ resource # after) acc
        = resourceLoop env opt (before @ after) acc" for acc
    by (simp add: resourceLoop_append step)
  have "GeneratorServiceEndpoints env (Inr opt)
        = Inr (FillObject (resourceLoop env opt (before @ resource # after) []) ''list'')"
    using assms(3,4) by (simp add: GeneratorServiceEndpoints_def findResource_def)
  with step loop show ?thesis by simp
qed

text \<open>An application with a service, an ingress of the group \<open>extensions\<close> and a supported
  ingress: the endpoints of the first and the third.\<close>

theorem GeneratorServiceEndpoints_unsupported_Ingress_witness:
  "ObjectReference.Kind (ObjectReference (exResource ''Ingress'' ''extensions/v1beta1'' ''old'')) = ''Ingress''
   \<and> GroupVersionKind.Group (resourceGVK (exResource ''Ingress'' ''extensions/v1beta1'' ''old'')) = ''extensions''
   \<and> GeneratorServiceEndpoints
        (exCluster [exResource ''Service'' ''v1'' ''web'',
                    exResource ''Ingress'' ''extensions/v1beta1'' ''old'',
                    exResource ''Ingress'' ''networking.k8s.io/v1'' ''front'']) (Inr exOption)
      = Inr (FillObject [exEndpoint '''' 30080, exIngressEndpoint ''http'' ''a.example.com'' 80 ''/''] ''list'')"
  using GeneratorServiceEndpoints_unsupported_Ingress
    [of "exResource ''Ingress'' ''extensions/v1beta1'' ''old''"
        "exCluster [exResource ''Service'' ''v1'' ''web'',
                    exResource ''Ingress'' ''extensions/v1beta1'' ''old'',
                    exResource ''Ingress'' ''networking.k8s.io/v1'' ''front'']"
        exOption
        "exApplication [exResource ''Service'' ''v1'' ''web'',
                    exResource ''Ingress'' ''extensions/v1beta1'' ''old'',
                    exResource ''Ingress'' ''networking.k8s.io/v1'' ''front'']"
        "[exResource ''Service'' ''v1'' ''web'']"
        "[exResource ''Ingress'' ''networking.k8s.io/v1'' ''front'']" "[]"]
  by (simp add: ex_defs gvk_defs resourceStep_def findResource_def generatorFromService_def
      generatorFromIngress_def getAppProtocol_def port_defs Let_def)

section \<open>The handler CollectLogsInPod\<close>

text \<open>When the stream opened, or failed with the recognised message, the handler fills in
  \<open>outputs\<close>: the text read, the window and the read error.\<close>

lemma logsOfPod_outputs:
  assumes "(case streamed of Inl e \<Rightarrow> isTerminatedContainerNotFound (Some e) | Inr readCloser \<Rightarrow> True)"
  shows "logsOfPod env podInst opts streamed =
    Inr (FillObject
      \<lparr>logs = (case streamed of
                 Inl e \<Rightarrow> ''''
               | Inr readCloser \<Rightarrow>
                   fst (readLoop (reads readCloser) (lastRead readCloser) (endError readCloser) '''')),
       fromDate = (case SinceTime opts of
                     Some t \<Rightarrow> t
                   | None \<Rightarrow>
                      (case SinceSeconds opts of
                         Some secs \<Rightarrow> Now env + sint ((- secs) * Second)
                       | None \<Rightarrow> CreationTimestamp (ObjectMeta podInst))),
       toDate = Now env,
       err = (case streamed of
                 Inl e \<Rightarrow> Some e
               | Inr readCloser \<Rightarrow>
                   snd (readLoop (reads readCloser) (lastRead readCloser) (endError readCloser) ''''))\<rparr>
      ''outputs'')"
  using assms by (cases streamed) (simp_all add: logsOfPod_def Let_def split: prod.splits)

text \<open>While the number of seconds times \<open>10^9\<close> fits an \<open>int64\<close>, the duration the handler
  adds to \<open>toDate\<close> is minus that many nanoseconds.\<close>

lemma sinceSeconds_duration:
  assumes "- 9223372036 \<le> sint secs" and "sint secs \<le> 9223372036"
  shows "sint ((- secs) * Second) = - (sint secs * 1000000000)"
proof -
  have "sint (- secs) = signed_take_bit 63 (- sint secs)"
    using sint_word_ariths(4) [of secs] by simp
  also have "\<dots> = - sint secs"
    using assms by (intro signed_take_bit_int_eq_self) simp_all
  finally have neg: "sint (- secs) = - sint secs" .
  have sec: "sint Second = 1000000000"
    by (simp add: Second_def)
  have "sint ((- secs) * Second) = signed_take_bit 63 (sint (- secs) * sint Second)"
    using sint_word_ariths(3) [of "- secs" Second] by simp
  also have "\<dots> = signed_take_bit 63 (- (sint secs * 1000000000))"
    by (simp add: neg sec)
  also have "\<dots> = - (sint secs * 1000000000)"
    using assms by (intro signed_take_bit_int_eq_self) simp_all
  finally show ?thesis .
qed

lemmas regex_defs = isTerminatedContainerNotFound_def terminatedContainerNotFoundRegex_def literal_def

lemma ex_terminated:
  "isTerminatedContainerNotFound (Some ''previous terminated container app in pod web-0 not found'')"
  by (simp add: regex_defs)

text \<open>The window of every call that fills in \<open>outputs\<close>: \<open>toDate\<close> is the clock, and
  \<open>fromDate\<close> is \<open>SinceTime\<close> when set, else the clock moved by the duration computed from
  \<open>SinceSeconds\<close> when set, else the creation timestamp of the pod.\<close>

lemma CollectLogsInPod_window:
  assumes "NewForConfig env = None"
    and "getPod env cluster namespace pod = Inr podInst"
    and "(case Stream env cluster namespace pod opts of
            Inl e \<Rightarrow> isTerminatedContainerNotFound (Some e) | Inr readCloser \<Rightarrow> True)"
  shows "\<exists>text readErr.
    CollectLogsInPod env
      \<lparr>clusterArg = Inr cluster, namespaceArg = Inr namespace, podArg = Inr pod,
       optionsArg = Inr (Inr opts)\<rparr>
    = Inr (FillObject
        \<lparr>logs = text,
         fromDate = (case SinceTime opts of
                       Some t \<Rightarrow> t
                     | None \<Rightarrow>
                        (case SinceSeconds opts of
                           Some secs \<Rightarrow> Now env + sint ((- secs) * Second)
                         | None \<Rightarrow> CreationTimestamp (ObjectMeta podInst))),
         toDate = Now env,
         err = readErr\<rparr> ''outputs'')"
  using assms by (simp add: CollectLogsInPod_def logsOfPod_outputs)

lemma CollectLogsInPod_sinceSeconds_in_range:
  assumes "NewForConfig env = None"
    and "getPod env cluster namespace pod = Inr podInst"
    and "(case Stream env cluster namespace pod opts of
            Inl e \<Rightarrow> isTerminatedContainerNotFound (Some e) | Inr readCloser \<Rightarrow> True)"
    and "SinceTime opts = None" and "SinceSeconds opts = Some secs"
    and "- 9223372036 \<le> sint secs" and "sint secs \<le> 9223372036"
  shows "\<exists>text readErr.
    CollectLogsInPod env
      \<lparr>clusterArg = Inr cluster, namespaceArg = Inr namespace, podArg = Inr pod,
       optionsArg = Inr (Inr opts)\<rparr>
    = Inr (FillObject
        \<lparr>logs = text, fromDate = Now env - sint secs * 1000000000, toDate = Now env,
         err = readErr\<rparr> ''outputs'')"
proof -
  have "Now env + sint ((- secs) * Second) = Now env - sint secs * 1000000000"
    using sinceSeconds_duration [OF assms(6,7)] by simp
  with CollectLogsInPod_window [OF assms(1-3)] assms(4,5) show ?thesis
    by (simp del: mult_minus_left)
qed

text \<open>The seventh testable property of the specification: sixty seconds before the clock,
  whatever the creation timestamp; here the stream breaks after two lines.\<close>

lemma CollectLogsInPod_sinceSeconds_60:
  "CollectLogsInPod
      (exLogsEnv (Inr \<lparr>reads = [''one'', ''two''], lastRead = '''', endError = ReadFailed ''reset''\<rparr>))
      (exLogsInput (exLogOptions (Some 60) None))
    = Inr (FillObject
        \<lparr>logs = ''onetwo'', fromDate = 1699999940000000000,
         toDate = 1700000000000000000, err = Some ''reset''\<rparr> ''outputs'')"
  by (simp add: ex_defs CollectLogsInPod_def logsOfPod_def Let_def Second_def)

text \<open>
  C7 fails on the code at \<open>SinceSeconds = 9223372037\<close> with no \<open>SinceTime\<close>: the product
  \<open>-9223372037 * 10^9\<close> does not fit an \<open>int64\<close> and wraps to a positive duration, so
  \<open>fromDate\<close> is not the clock minus that many seconds but lies some 292 years after
  \<open>toDate\<close>.
\<close>

theorem CollectLogsInPod_sinceSeconds_wraps:
  "sint ((- (9223372037 :: int64)) * Second) = 9223372036709551616
   \<and> CollectLogsInPod (exLogsEnv (Inr \<lparr>reads = [], lastRead = ''started'', endError = EOF\<rparr>))
        (exLogsInput (exLogOptions (Some 9223372037) None))
      = Inr (FillObject
          \<lparr>logs = ''started'', fromDate = 10923372036709551616,
           toDate = 1700000000000000000, err = None\<rparr> ''outputs'')"
  by (simp add: ex_defs CollectLogsInPod_def logsOfPod_def Let_def Second_def)

text \<open>
  C8, as amended. When opening the stream fails with a message that matches the pattern of
  the terminated container that is not found, the handler does not return an error: it
  fills in \<open>outputs\<close> with an empty text, the usual window, and the message of that
  failure under \<open>err\<close>.
\<close>

theorem CollectLogsInPod_terminated_container:
  assumes "isTerminatedContainerNotFound (Some e)"
    and "NewForConfig env = None"
    and "getPod env cluster namespace pod = Inr podInst"
    and "Stream env cluster namespace pod opts = Inl e"
  shows "CollectLogsInPod env
           \<lparr>clusterArg = Inr cluster, namespaceArg = Inr namespace, podArg = Inr pod,
            optionsArg = Inr (Inr opts)\<rparr>
         = Inr (FillObject
             \<lparr>logs = '''',
              fromDate = (case SinceTime opts of
                            Some t \<Rightarrow> t
                          | None \<Rightarrow>
                             (case SinceSeconds opts of
                                Some secs \<Rightarrow> Now env + sint ((- secs) * Second)
                              | None \<Rightarrow> CreationTimestamp (ObjectMeta podInst))),
              toDate = Now env,
              err = Some e\<rparr> ''outputs'')"
  using assms by (simp add: CollectLogsInPod_def logsOfPod_outputs)

theorem CollectLogsInPod_terminated_container_witness:
  "isTerminatedContainerNotFound (Some ''previous terminated container app in pod web-0 not found'')
   \<and> CollectLogsInPod (exLogsEnv (Inl ''previous terminated container app in pod web-0 not found''))
        (exLogsInput (exLogOptions None (Some 1650000000000000000)))
      = Inr (FillObject
          \<lparr>logs = '''', fromDate = 1650000000000000000, toDate = 1700000000000000000,
           err = Some ''previous terminated container app in pod web-0 not found''\<rparr> ''outputs'')"
  using CollectLogsInPod_terminated_container
    [of "''previous terminated container app in pod web-0 not found''"
        "exLogsEnv (Inl ''previous terminated container app in pod web-0 not found'')"
        "''c1''" "''default''" "''web-0''" exPod "exLogOptions None (Some 1650000000000000000)"]
    ex_terminated
  by (simp add: ex_defs)

text \<open>C8 as stated fails: on the recognised failure the result carries an error, the
  message of the failure.\<close>

theorem CollectLogsInPod_terminated_container_counterexample:
  "isTerminatedContainerNotFound (Some ''previous terminated container app in pod web-0 not found'')
   \<and> CollectLogsInPod (exLogsEnv (Inl ''previous terminated container app in pod web-0 not found''))
        (exLogsInput (exLogOptions None None))
      = Inr (FillObject
          \<lparr>logs = '''', fromDate = 1600000000000000000, toDate = 1700000000000000000,
           err = Some ''previous terminated container app in pod web-0 not found''\<rparr> ''outputs'')"
  using ex_terminated
  by (simp add: ex_defs CollectLogsInPod_def logsOfPod_def Let_def)

section \<open>The handler CollectPods\<close>

lemma ParseGroupVersion_fluxcd:
  "(ParseGroupVersion gv = Inr \<lparr>GroupVersion.Group = ''helm.toolkit.fluxcd.io'', Version = ''v2beta1''\<rparr>)
    = (gv = ''helm.toolkit.fluxcd.io/v2beta1'')"
proof
  assume "gv = ''helm.toolkit.fluxcd.io/v2beta1''"
  then show "ParseGroupVersion gv
      = Inr \<lparr>GroupVersion.Group = ''helm.toolkit.fluxcd.io'', Version = ''v2beta1''\<rparr>"
    by (simp add: ParseGroupVersion_def)
next
  assume "ParseGroupVersion gv
      = Inr \<lparr>GroupVersion.Group = ''helm.toolkit.fluxcd.io'', Version = ''v2beta1''\<rparr>"
  then have one: "count_list gv CHR ''/'' = 1"
    and g: "takeWhile (\<lambda>c. c \<noteq> CHR ''/'') gv = ''helm.toolkit.fluxcd.io''"
    and v: "tl (dropWhile (\<lambda>c. c \<noteq> CHR ''/'') gv) = ''v2beta1''"
    by (auto simp: ParseGroupVersion_def split: if_splits)
  let ?P = "\<lambda>c. c \<noteq> CHR ''/''"
  from one have "CHR ''/'' \<in> set gv"
    using count_list_0_iff [of gv "CHR ''/''"] by simp
  then have ne: "dropWhile ?P gv \<noteq> []"
    by (auto simp: dropWhile_eq_Nil_conv)
  then have "\<not> ?P (hd (dropWhile ?P gv))"
    by (rule hd_dropWhile)
  then have "hd (dropWhile ?P gv) = CHR ''/''"
    by simp
  with ne have "dropWhile ?P gv = CHR ''/'' # tl (dropWhile ?P gv)"
    using list.collapse [of "dropWhile ?P gv"] by simp
  moreover have "gv = takeWhile ?P gv @ dropWhile ?P gv"
    by simp
  ultimately have "gv = takeWhile ?P gv @ CHR ''/'' # tl (dropWhile ?P gv)"
    by simp
  then show "gv = ''helm.toolkit.fluxcd.io/v2beta1''"
    by (simp add: g v)
qed

lemma objGroupVersionKind_fluxcd:
  "(objGroupVersionKind obj = WithKind fluxcdGroupVersion HelmReleaseKind)
    = (TypeMeta.APIVersion (TypeMeta obj) = ''helm.toolkit.fluxcd.io/v2beta1''
        \<and> TypeMeta.Kind (TypeMeta obj) = ''HelmRelease'')"
proof (cases "ParseGroupVersion (TypeMeta.APIVersion (TypeMeta obj))")
  case (Inl e)
  then have "TypeMeta.APIVersion (TypeMeta obj) \<noteq> ''helm.toolkit.fluxcd.io/v2beta1''"
    using ParseGroupVersion_fluxcd [of "TypeMeta.APIVersion (TypeMeta obj)"] by simp
  with Inl show ?thesis
    by (simp add: objGroupVersionKind_def WithKind_def fluxcdGroupVersion_def HelmReleaseKind_def)
next
  case (Inr gv)
  have "(gv = \<lparr>GroupVersion.Group = ''helm.toolkit.fluxcd.io'', Version = ''v2beta1''\<rparr>)
      = (TypeMeta.APIVersion (TypeMeta obj) = ''helm.toolkit.fluxcd.io/v2beta1'')"
    using ParseGroupVersion_fluxcd [of "TypeMeta.APIVersion (TypeMeta obj)"] Inr by simp
  then show ?thesis
    using Inr
    by (cases gv)
      (auto simp: objGroupVersionKind_def WithKind_def fluxcdGroupVersion_def HelmReleaseKind_def)
qed

text \<open>
  C9. Given an object and a cluster, the handler runs the helm release collector when the
  object's group is \<open>helm.toolkit.fluxcd.io\<close>, its version \<open>v2beta1\<close> and its kind
  \<open>HelmRelease\<close>, and the collector \<open>NewPodCollector\<close> makes for the object's group, version
  and kind in every other case; it then fills in \<open>list\<close> with the pods, or \<open>err\<close> with the
  collector's error. The three equalities hold exactly for the API version
  \<open>helm.toolkit.fluxcd.io/v2beta1\<close> with the kind \<open>HelmRelease\<close>.
\<close>

theorem CollectPods_dispatch:
  "CollectPods run \<lparr>valueField = Inr (Inr obj), clusterField = Inr cluster\<rparr> =
    (case run (if GroupVersionKind.Group (objGroupVersionKind obj) = ''helm.toolkit.fluxcd.io''
                  \<and> GroupVersionKind.Version (objGroupVersionKind obj) = ''v2beta1''
                  \<and> GroupVersionKind.Kind (objGroupVersionKind obj) = ''HelmRelease''
               then helmReleasePodCollector
               else NewPodCollector (objGroupVersionKind obj)) obj cluster of
       Inl e \<Rightarrow> Inr (FillErr e)
     | Inr pods \<Rightarrow> Inr (FillObject pods ''list''))
   \<and> ((GroupVersionKind.Group (objGroupVersionKind obj) = ''helm.toolkit.fluxcd.io''
          \<and> GroupVersionKind.Version (objGroupVersionKind obj) = ''v2beta1''
          \<and> GroupVersionKind.Kind (objGroupVersionKind obj) = ''HelmRelease'')
       = (TypeMeta.APIVersion (TypeMeta obj) = ''helm.toolkit.fluxcd.io/v2beta1''
          \<and> TypeMeta.Kind (TypeMeta obj) = ''HelmRelease''))"
proof -
  have fields: "(objGroupVersionKind obj = WithKind fluxcdGroupVersion HelmReleaseKind) =
        (GroupVersionKind.Group (objGroupVersionKind obj) = ''helm.toolkit.fluxcd.io''
          \<and> GroupVersionKind.Version (objGroupVersionKind obj) = ''v2beta1''
          \<and> GroupVersionKind.Kind (objGroupVersionKind obj) = ''HelmRelease'')"
    by (cases "objGroupVersionKind obj")
      (simp add: WithKind_def fluxcdGroupVersion_def HelmReleaseKind_def)
  then have "CollectPods run \<lparr>valueField = Inr (Inr obj), clusterField = Inr cluster\<rparr> =
    (case run (if GroupVersionKind.Group (objGroupVersionKind obj) = ''helm.toolkit.fluxcd.io''
                  \<and> GroupVersionKind.Version (objGroupVersionKind obj) = ''v2beta1''
                  \<and> GroupVersionKind.Kind (objGroupVersionKind obj) = ''HelmRelease''
               then helmReleasePodCollector
               else NewPodCollector (objGroupVersionKind obj)) obj cluster of
       Inl e \<Rightarrow> Inr (FillErr e)
     | Inr pods \<Rightarrow> Inr (FillObject pods ''list''))"
    by (simp add: CollectPods_def Let_def)
  moreover have "(GroupVersionKind.Group (objGroupVersionKind obj) = ''helm.toolkit.fluxcd.io''
          \<and> GroupVersionKind.Version (objGroupVersionKind obj) = ''v2beta1''
          \<and> GroupVersionKind.Kind (objGroupVersionKind obj) = ''HelmRelease'')
       = (TypeMeta.APIVersion (TypeMeta obj) = ''helm.toolkit.fluxcd.io/v2beta1''
          \<and> TypeMeta.Kind (TypeMeta obj) = ''HelmRelease'')"
    using fields objGroupVersionKind_fluxcd [of obj] by simp
  ultimately show ?thesis by (rule conjI)
qed

text \<open>A collector that answers with its own name shows which one ran: the helm release
  collector for the release of version \<open>v2beta1\<close>, the other for a release of another
  version and for a deployment.\<close>

theorem CollectPods_dispatch_witness:
  "CollectPods (\<lambda>collector obj cluster. Inr [collector])
      \<lparr>valueField = Inr (Inr (exObject ''helm.toolkit.fluxcd.io/v2beta1'' ''HelmRelease'')),
       clusterField = Inr ''c1''\<rparr>
     = Inr (FillObject [helmReleasePodCollector] ''list'')
   \<and> CollectPods (\<lambda>collector obj cluster. Inr [collector])
      \<lparr>valueField = Inr (Inr (exObject ''helm.toolkit.fluxcd.io/v2'' ''HelmRelease'')),
       clusterField = Inr ''c1''\<rparr>
     = Inr (FillObject [NewPodCollector \<lparr>GroupVersionKind.Group = ''helm.toolkit.fluxcd.io'',
                                          Version = ''v2'', Kind = ''HelmRelease''\<rparr>] ''list'')
   \<and> CollectPods (\<lambda>collector obj cluster. Inr [collector])
      \<lparr>valueField = Inr (Inr (exObject ''apps/v1'' ''Deployment'')), clusterField = Inr ''c1''\<rparr>
     = Inr (FillObject [NewPodCollector \<lparr>GroupVersionKind.Group = ''apps'',
                                          Version = ''v1'', Kind = ''Deployment''\<rparr>] ''list'')"
  using CollectPods_dispatch [of "\<lambda>collector obj cluster. Inr [collector]"
      "exObject ''helm.toolkit.fluxcd.io/v2beta1'' ''HelmRelease''" "''c1''"]
    CollectPods_dispatch [of "\<lambda>collector obj cluster. Inr [collector]"
      "exObject ''helm.toolkit.fluxcd.io/v2'' ''HelmRelease''" "''c1''"]
    CollectPods_dispatch [of "\<lambda>collector obj cluster. Inr [collector]"
      "exObject ''apps/v1'' ''Deployment''" "''c1''"]
  by (simp add: ex_defs objGroupVersionKind_def ParseGroupVersion_def WithKind_def)

section \<open>The URL of an endpoint\<close>

lemma ToLower_TCP: "ToLower unicodeLower ''TCP'' = ''tcp''"
  by (simp add: ToLower_def isASCII_def) code_simp

lemma formatInt_examples:
  "formatInt 80 = ''80''" "formatInt 443 = ''443''" "formatInt 8080 = ''8080''"
  by (simp_all add: formatInt_def)

text \<open>
  C10. The URL of an endpoint is built from a scheme, the host, the port and the path. The
  scheme is \<open>AppProtocol\<close> when it is set and the transport protocol in lower case
  otherwise; the path \<open>/\<close> is written as the empty string and any other path as it is; the
  port, after a colon, is left out exactly when scheme and port are \<open>https\<close> and 443 or
  \<open>http\<close> and 80.
\<close>

theorem String_url:
  "String unicodeLower s =
    (let scheme = (case AppProtocol (Endpoint s) of
                     Some p \<Rightarrow> p
                   | None \<Rightarrow> ToLower unicodeLower (Endpoint.Protocol (Endpoint s)))
     in scheme @ ''://'' @ Endpoint.Host (Endpoint s)
        @ (if (scheme = ''https'' \<and> Endpoint.Port (Endpoint s) = 443)
              \<or> (scheme = ''http'' \<and> Endpoint.Port (Endpoint s) = 80)
           then '''' else '':'' @ formatInt (sint (Endpoint.Port (Endpoint s))))
        @ (if Endpoint.Path (Endpoint s) = ''/'' then '''' else Endpoint.Path (Endpoint s)))"
  by (simp add: String_def Let_def)

theorem String_url_witness:
  "String id (exIngressEndpoint ''https'' ''a.example.com'' 443 ''/'') = ''https://a.example.com''
   \<and> String id (exIngressEndpoint ''http'' ''a.example.com'' 80 ''/api'') = ''http://a.example.com/api''
   \<and> String id (exIngressEndpoint ''https'' ''a.example.com'' 80 ''/'') = ''https://a.example.com:80''
   \<and> String id (exIngressEndpoint ''http'' ''a.example.com'' 8080 ''//'') = ''http://a.example.com:8080//''
   \<and> String id (exEndpoint ''10.0.0.1'' 443) = ''tcp://10.0.0.1:443''"
  using String_url [of id "exIngressEndpoint ''https'' ''a.example.com'' 443 ''/''"]
    String_url [of id "exIngressEndpoint ''http'' ''a.example.com'' 80 ''/api''"]
    String_url [of id "exIngressEndpoint ''https'' ''a.example.com'' 80 ''/''"]
    String_url [of id "exIngressEndpoint ''http'' ''a.example.com'' 8080 ''//''"]
    String_url [of id "exEndpoint ''10.0.0.1'' 443"]
  by (simp add: ex_defs ToLower_TCP formatInt_examples)

end
